theory Spec2Isabelle
  imports Complex_Main
begin

section \<open>Strings and numbers of the host language\<close>

text \<open>
  Strings are lists of ASCII characters. The helpers below are the Python built-ins the
  repository calls on them: \<^verbatim>\<open>str.strip()\<close>, \<^verbatim>\<open>str.upper()\<close>, \<^verbatim>\<open>str.split(sep)\<close> and
  \<^verbatim>\<open>int(text)\<close>. Characters beyond ASCII (Unicode digits and spaces) are not modelled, and
  neither is the interpreter's optional limit on the number of digits of an integer text.

  \<^verbatim>\<open>str.strip()\<close> removes the characters 9 to 13 and 28 to 32. \<^verbatim>\<open>int(text)\<close> and
  \<^verbatim>\<open>float(text)\<close> skip fewer around an ASCII text: the characters 9 to 13 and 32 only.
\<close>

definition py_isspace :: "char \<Rightarrow> bool" where
  "py_isspace c =
     (let n = (of_char c :: nat) in (9 \<le> n \<and> n \<le> 13) \<or> (28 \<le> n \<and> n \<le> 32))"

definition py_strip :: "string \<Rightarrow> string" where
  "py_strip s = rev (dropWhile py_isspace (rev (dropWhile py_isspace s)))"

definition c_isspace :: "char \<Rightarrow> bool" where
  "c_isspace c = (let n = (of_char c :: nat) in (9 \<le> n \<and> n \<le> 13) \<or> n = 32)"

definition c_strip :: "string \<Rightarrow> string" where
  "c_strip s = rev (dropWhile c_isspace (rev (dropWhile c_isspace s)))"

definition is_digit :: "char \<Rightarrow> bool" where
  "is_digit c = (let n = (of_char c :: nat) in 48 \<le> n \<and> n \<le> 57)"

definition to_upper :: "char \<Rightarrow> char" where
  "to_upper c =
     (let n = (of_char c :: nat) in if 97 \<le> n \<and> n \<le> 122 then char_of (n - 32) else c)"

definition py_upper :: "string \<Rightarrow> string" where
  "py_upper s = map to_upper s"

text \<open>\<^verbatim>\<open>s.split(sep)\<close> for a one-character separator: the result is never empty.\<close>

fun py_split :: "char \<Rightarrow> string \<Rightarrow> string list" where
  "py_split sep [] = [[]]"
| "py_split sep (c # cs) =
     (if c = sep then [] # py_split sep cs
      else (case py_split sep cs of
              [] \<Rightarrow> [[c]]
            | p # ps \<Rightarrow> (c # p) # ps))"

text \<open>
  A run of decimal digits in which single underscores may separate digits, as
  \<^verbatim>\<open>int()\<close> and \<^verbatim>\<open>float()\<close> accept it; the result is the run without the underscores.
\<close>

fun digit_run :: "string \<Rightarrow> string option" where
  "digit_run [] = None"
| "digit_run [c] = (if is_digit c then Some [c] else None)"
| "digit_run (c # d # cs) =
     (if is_digit c
      then (if d = CHR ''_'' then map_option (Cons c) (digit_run cs)
            else map_option (Cons c) (digit_run (d # cs)))
      else None)"

definition digits_value :: "string \<Rightarrow> nat" where
  "digits_value ds = foldl (\<lambda>acc c. 10 * acc + (of_char c - 48)) 0 ds"

text \<open>\<^verbatim>\<open>int(text)\<close>: \<open>None\<close> stands for the \<^verbatim>\<open>ValueError\<close> of a text that is no integer.\<close>

definition py_int :: "string \<Rightarrow> int option" where
  "py_int s =
     (case c_strip s of
        [] \<Rightarrow> None
      | c # cs \<Rightarrow>
          if c = CHR ''-'' then map_option (\<lambda>ds. - int (digits_value ds)) (digit_run cs)
          else if c = CHR ''+'' then map_option (\<lambda>ds. int (digits_value ds)) (digit_run cs)
          else map_option (\<lambda>ds. int (digits_value ds)) (digit_run (c # cs)))"

text \<open>
  A Python \<^verbatim>\<open>float\<close> is a finite number, an infinity or a NaN. A finite double is
  modelled by the rational number it denotes (the sign of a zero is not kept).
  Comparisons follow IEEE 754: every ordered comparison with a NaN is false.
\<close>

datatype pyfloat = Finite rat | PosInf | NegInf | NaN

text \<open>
  \<open>double r\<close> is the double nearest to the rational \<open>r\<close>, ties going to the even
  significand: 53 significant bits from the exponent \<open>ilog2 \<bar>r\<bar>\<close> down, and no exponent
  below -1022, so that small numbers round on the grid of the subnormals. It is the value
  of a decimal literal of the source, of \<^verbatim>\<open>float(text)\<close> and of \<^verbatim>\<open>float(i)\<close> for an
  integer \<open>i\<close>, as long as \<open>r\<close> is within the range of the doubles: the literal \<^verbatim>\<open>99.6\<close> is
  \<open>double 99.6\<close>, a little less than the decimal 99.6.
\<close>

fun bit_length :: "nat \<Rightarrow> nat" where
  "bit_length n = (if n = 0 then 0 else Suc (bit_length (n div 2)))"

declare bit_length.simps [simp del]

definition ilog2 :: "rat \<Rightarrow> int" where
  "ilog2 a =
     (if 1 \<le> a then int (bit_length (nat \<lfloor>a\<rfloor>)) - 1
      else - int (bit_length (nat (\<lceil>1 / a\<rceil> - 1))))"

definition pow2 :: "int \<Rightarrow> rat" where
  "pow2 k = (if 0 \<le> k then 2 ^ nat k else 1 / 2 ^ nat (- k))"

definition round_half_even :: "rat \<Rightarrow> int" where
  "round_half_even q =
     (let f = \<lfloor>q\<rfloor>; d = q - of_int f
      in if d < 1 / 2 then f else if 1 / 2 < d then f + 1 else if even f then f else f + 1)"

definition double :: "rat \<Rightarrow> rat" where
  "double r =
     (if r = 0 then 0
      else
        (let a = \<bar>r\<bar>;
             e = max (ilog2 a) (- 1022);
             ulp = pow2 (e - 52);
             m = round_half_even (a / ulp)
         in sgn r * of_int m * ulp))"

fun float_le :: "pyfloat \<Rightarrow> pyfloat \<Rightarrow> bool" where
  "float_le (Finite a) (Finite b) = (a \<le> b)"
| "float_le NaN _ = False"
| "float_le _ NaN = False"
| "float_le NegInf _ = True"
| "float_le _ PosInf = True"
| "float_le _ _ = False"

fun float_lt :: "pyfloat \<Rightarrow> pyfloat \<Rightarrow> bool" where
  "float_lt (Finite a) (Finite b) = (a < b)"
| "float_lt NaN _ = False"
| "float_lt _ NaN = False"
| "float_lt NegInf NegInf = False"
| "float_lt PosInf PosInf = False"
| "float_lt NegInf _ = True"
| "float_lt _ PosInf = True"
| "float_lt _ _ = False"

definition float_ge :: "pyfloat \<Rightarrow> pyfloat \<Rightarrow> bool" where
  "float_ge a b = float_le b a"

definition float_gt :: "pyfloat \<Rightarrow> pyfloat \<Rightarrow> bool" where
  "float_gt a b = float_lt b a"

section \<open>The canonical patient (patient.py)\<close>

text \<open>
  The fields carry the types the class annotates: an age is an integer or absent, a blood
  pressure a string or absent, a temperature a float or absent. The \<^verbatim>\<open>isinstance\<close>
  tests of the scorer and the classifiers always succeed on such a field that is present,
  so only their \<^verbatim>\<open>None\<close> half remains in the model.
\<close>

record patient =
  patient_id :: string
  age :: "int option"
  blood_pressure :: "string option"
  temperature :: "pyfloat option"

section \<open>Risk scoring (risk\_scorer.py)\<close>

definition calculate_bp_risk :: "string option \<Rightarrow> int" where
  "calculate_bp_risk bp =
     (case bp of
        None \<Rightarrow> 0
      | Some s \<Rightarrow>
          if s = [] then 0
          else
            (let parts = py_split (CHR ''/'') s in
             if length parts \<noteq> 2 then 0
             else
               (case py_int (py_strip (parts ! 0)) of
                  None \<Rightarrow> 0
                | Some systolic \<Rightarrow>
                    (case py_int (py_strip (parts ! 1)) of
                       None \<Rightarrow> 0
                     | Some diastolic \<Rightarrow>
                         (let systolic_risk =
                                (if systolic < 120 then 0
                                 else if 120 \<le> systolic \<and> systolic \<le> 129 then 1
                                 else if 130 \<le> systolic \<and> systolic \<le> 139 then 2
                                 else 3);
                              diastolic_risk =
                                (if diastolic < 80 then 0
                                 else if 80 \<le> diastolic \<and> diastolic \<le> 89 then 2
                                 else 3)
                          in max systolic_risk diastolic_risk)))))"

definition calculate_temp_risk :: "pyfloat option \<Rightarrow> int" where
  "calculate_temp_risk temp =
     (case temp of
        None \<Rightarrow> 0
      | Some t \<Rightarrow>
          if float_le t (Finite (double 99.5)) then 0
          else if float_le (Finite (double 99.6)) t \<and> float_le t (Finite (double 100.9)) then 1
          else 2)"

definition calculate_age_risk :: "int option \<Rightarrow> int" where
  "calculate_age_risk age_value =
     (case age_value of
        None \<Rightarrow> 0
      | Some a \<Rightarrow>
          if a < 40 then 0
          else if 40 \<le> a \<and> a \<le> 65 then 1
          else 2)"

definition calculate_total_risk :: "patient \<Rightarrow> int" where
  "calculate_total_risk p =
     (let bp_score = calculate_bp_risk (blood_pressure p);
          temp_score = calculate_temp_risk (temperature p);
          age_score = calculate_age_risk (age p)
      in bp_score + temp_score + age_score)"

section \<open>Classifiers\<close>

text \<open>
  Each classifier is a \<^verbatim>\<open>for\<close> loop over the patients that appends to a result list;
  the loop is a \<open>fold\<close> whose state is that list.
\<close>

subsection \<open>high\_risk\_classifier.py\<close>

definition get_high_risk_patients :: "patient list \<Rightarrow> string list" where
  "get_high_risk_patients patients =
     fold (\<lambda>p high_risk_ids.
             let total_risk = calculate_total_risk p in
             if total_risk \<ge> 4 then high_risk_ids @ [patient_id p] else high_risk_ids)
          patients []"

subsection \<open>fever\_classifier.py\<close>

definition get_fever_patients :: "patient list \<Rightarrow> string list" where
  "get_fever_patients patients =
     fold (\<lambda>p fever_ids.
             case temperature p of
               None \<Rightarrow> fever_ids
             | Some t \<Rightarrow>
                 if float_ge t (Finite (double 99.6)) then fever_ids @ [patient_id p]
                 else fever_ids)
          patients []"

subsection \<open>data\_quality.py\<close>

definition is_valid_bp :: "string option \<Rightarrow> bool" where
  "is_valid_bp bp =
     (case bp of
        None \<Rightarrow> False
      | Some s \<Rightarrow>
          (let parts = py_split (CHR ''/'') s in
           if length parts \<noteq> 2 then False
           else
             (case py_int (py_strip (parts ! 0)) of
                None \<Rightarrow> False
              | Some systolic \<Rightarrow>
                  (case py_int (py_strip (parts ! 1)) of
                     None \<Rightarrow> False
                   | Some diastolic \<Rightarrow>
                       if systolic \<le> 0 \<or> systolic > 300 \<or> diastolic \<le> 0 \<or> diastolic > 200
                       then False
                       else True))))"

definition is_valid_age :: "int option \<Rightarrow> bool" where
  "is_valid_age age_value =
     (case age_value of
        None \<Rightarrow> False
      | Some a \<Rightarrow> if a < 0 \<or> a > 150 then False else True)"

definition is_valid_temperature :: "pyfloat option \<Rightarrow> bool" where
  "is_valid_temperature temp =
     (case temp of
        None \<Rightarrow> False
      | Some t \<Rightarrow> if float_le t (Finite 0) \<or> float_gt t (Finite 115) then False else True)"

definition get_data_quality_issues :: "patient list \<Rightarrow> string list" where
  "get_data_quality_issues patients =
     fold (\<lambda>p patient_ids_with_issues.
             let has_issue = False;
                 has_issue = (if \<not> is_valid_bp (blood_pressure p) then True else has_issue);
                 has_issue = (if \<not> is_valid_age (age p) then True else has_issue);
                 has_issue =
                   (if \<not> is_valid_temperature (temperature p) then True else has_issue)
             in if has_issue then patient_ids_with_issues @ [patient_id p]
                else patient_ids_with_issues)
          patients []"

section \<open>Raw values (the contents of a decoded JSON page)\<close>

text \<open>
  A raw record maps field names to values of any JSON type. The exceptions the sanitizer
  can meet are values of \<open>py_error\<close>; a function that can raise returns \<open>py_error + 'a\<close>.
\<close>

datatype py_error = ValueError | TypeError | OverflowError

datatype pyval =
    PNone
  | PBool bool
  | PInt int
  | PFloat pyfloat
  | PStr string
  | PList "pyval list"
  | PDict "(string \<times> pyval) list"

type_synonym raw_record = "string \<rightharpoonup> pyval"

text \<open>\<^verbatim>\<open>d.get(key)\<close>: a missing key reads as \<^verbatim>\<open>None\<close>.\<close>

definition py_get :: "raw_record \<Rightarrow> string \<Rightarrow> pyval" where
  "py_get d k = (case d k of None \<Rightarrow> PNone | Some v \<Rightarrow> v)"

fun nat_str :: "nat \<Rightarrow> string" where
  "nat_str n =
     (if n < 10 then [char_of (48 + n)] else nat_str (n div 10) @ [char_of (48 + n mod 10)])"

declare nat_str.simps [simp del]

definition int_str :: "int \<Rightarrow> string" where
  "int_str i = (if i < 0 then CHR ''-'' # nat_str (nat (- i)) else nat_str (nat i))"

text \<open>
  \<^verbatim>\<open>str(value)\<close>. The text of a float, a list or a dict is not computed here: it is
  whatever the parameter \<open>repr\<close> gives, and every function that calls \<^verbatim>\<open>str\<close> takes
  \<open>repr\<close> as its first argument.
\<close>

definition py_str :: "(pyval \<Rightarrow> string) \<Rightarrow> pyval \<Rightarrow> string" where
  "py_str repr v =
     (case v of
        PNone \<Rightarrow> ''None''
      | PBool b \<Rightarrow> (if b then ''True'' else ''False'')
      | PInt i \<Rightarrow> int_str i
      | PStr s \<Rightarrow> s
      | _ \<Rightarrow> repr v)"

text \<open>
  \<^verbatim>\<open>int(value)\<close>: a float is truncated towards zero, an infinity raises
  \<^verbatim>\<open>OverflowError\<close>, a NaN and a text that is no integer raise \<^verbatim>\<open>ValueError\<close>, and
  \<^verbatim>\<open>None\<close>, lists and dicts raise \<^verbatim>\<open>TypeError\<close>.
\<close>

definition py_int_of :: "pyval \<Rightarrow> py_error + int" where
  "py_int_of v =
     (case v of
        PNone \<Rightarrow> Inl TypeError
      | PBool b \<Rightarrow> Inr (if b then 1 else 0)
      | PInt i \<Rightarrow> Inr i
      | PFloat f \<Rightarrow>
          (case f of
             Finite r \<Rightarrow> Inr (if 0 \<le> r then \<lfloor>r\<rfloor> else \<lceil>r\<rceil>)
           | PosInf \<Rightarrow> Inl OverflowError
           | NegInf \<Rightarrow> Inl OverflowError
           | NaN \<Rightarrow> Inl ValueError)
      | PStr s \<Rightarrow> (case py_int s of None \<Rightarrow> Inl ValueError | Some i \<Rightarrow> Inr i)
      | PList _ \<Rightarrow> Inl TypeError
      | PDict _ \<Rightarrow> Inl TypeError)"

text \<open>
  A number of magnitude \<open>2^1024 - 2^970\<close> or more rounds beyond the largest double: a
  decimal text of that size reads as an infinity, and an integer of that size cannot be
  converted. Any other number becomes the nearest double.
\<close>

definition beyond_double :: "rat \<Rightarrow> bool" where
  "beyond_double r = (2 ^ 1024 - 2 ^ 970 \<le> \<bar>r\<bar>)"

definition float_of_rat :: "rat \<Rightarrow> pyfloat" where
  "float_of_rat r =
     (if beyond_double r then (if 0 < r then PosInf else NegInf) else Finite (double r))"

definition to_lower :: "char \<Rightarrow> char" where
  "to_lower c =
     (let n = (of_char c :: nat) in if 65 \<le> n \<and> n \<le> 90 then char_of (n + 32) else c)"

definition py_lower :: "string \<Rightarrow> string" where
  "py_lower s = map to_lower s"

definition opt_digit_run :: "string \<Rightarrow> string option" where
  "opt_digit_run s = (if s = [] then Some [] else digit_run s)"

definition mantissa_value :: "string \<Rightarrow> rat option" where
  "mantissa_value m =
     (case py_split (CHR ''.'') m of
        [ip] \<Rightarrow> map_option (\<lambda>ds. of_nat (digits_value ds)) (digit_run ip)
      | [ip, fp] \<Rightarrow>
          (case opt_digit_run ip of
             None \<Rightarrow> None
           | Some a \<Rightarrow>
               (case opt_digit_run fp of
                  None \<Rightarrow> None
                | Some b \<Rightarrow>
                    if a = [] \<and> b = [] then None
                    else Some (of_nat (digits_value (a @ b)) / 10 ^ length b)))
      | _ \<Rightarrow> None)"

definition exponent_value :: "string \<Rightarrow> int option" where
  "exponent_value e =
     (case e of
        [] \<Rightarrow> None
      | c # cs \<Rightarrow>
          if c = CHR ''-'' then map_option (\<lambda>ds. - int (digits_value ds)) (digit_run cs)
          else if c = CHR ''+'' then map_option (\<lambda>ds. int (digits_value ds)) (digit_run cs)
          else map_option (\<lambda>ds. int (digits_value ds)) (digit_run (c # cs)))"

definition scale10 :: "rat \<Rightarrow> int \<Rightarrow> rat" where
  "scale10 r k = (if 0 \<le> k then r * 10 ^ nat k else r / 10 ^ nat (- k))"

definition decimal_value :: "string \<Rightarrow> rat option" where
  "decimal_value u =
     (case py_split (CHR ''e'') u of
        [m] \<Rightarrow> mantissa_value m
      | [m, e] \<Rightarrow>
          (case mantissa_value m of
             None \<Rightarrow> None
           | Some r \<Rightarrow> map_option (scale10 r) (exponent_value e))
      | _ \<Rightarrow> None)"

text \<open>
  \<^verbatim>\<open>float(text)\<close>: surrounding blanks, a sign, then \<^verbatim>\<open>inf\<close>, \<^verbatim>\<open>infinity\<close>, \<^verbatim>\<open>nan\<close>
  (in any case) or a decimal number with an optional exponent. \<open>None\<close> stands for the
  \<^verbatim>\<open>ValueError\<close> of any other text.
\<close>

definition py_float_str :: "string \<Rightarrow> pyfloat option" where
  "py_float_str s =
     (let t = py_lower (c_strip s);
          neg = (case t of [] \<Rightarrow> False | c # _ \<Rightarrow> c = CHR ''-'');
          u = (case t of [] \<Rightarrow> [] | c # cs \<Rightarrow> if c = CHR ''-'' \<or> c = CHR ''+'' then cs else t)
      in if u = ''inf'' \<or> u = ''infinity'' then Some (if neg then NegInf else PosInf)
         else if u = ''nan'' then Some NaN
         else map_option (\<lambda>r. float_of_rat (if neg then - r else r)) (decimal_value u))"

text \<open>\<^verbatim>\<open>float(value)\<close>.\<close>

definition py_float_of :: "pyval \<Rightarrow> py_error + pyfloat" where
  "py_float_of v =
     (case v of
        PNone \<Rightarrow> Inl TypeError
      | PBool b \<Rightarrow> Inr (Finite (if b then 1 else 0))
      | PInt i \<Rightarrow>
          (if beyond_double (of_int i) then Inl OverflowError
           else Inr (Finite (double (of_int i))))
      | PFloat f \<Rightarrow> Inr f
      | PStr s \<Rightarrow> (case py_float_str s of None \<Rightarrow> Inl ValueError | Some f \<Rightarrow> Inr f)
      | PList _ \<Rightarrow> Inl TypeError
      | PDict _ \<Rightarrow> Inl TypeError)"

text \<open>Truth value of a value, as \<^verbatim>\<open>while\<close> and \<^verbatim>\<open>if\<close> test it.\<close>

definition truthy :: "pyval \<Rightarrow> bool" where
  "truthy v =
     (case v of
        PNone \<Rightarrow> False
      | PBool b \<Rightarrow> b
      | PInt i \<Rightarrow> i \<noteq> 0
      | PFloat f \<Rightarrow> f \<noteq> Finite 0
      | PStr s \<Rightarrow> s \<noteq> []
      | PList xs \<Rightarrow> xs \<noteq> []
      | PDict kvs \<Rightarrow> kvs \<noteq> [])"

section \<open>The sanitizer (sanitizer.py)\<close>

text \<open>
  \<^verbatim>\<open>re.match(r"^(\d+)/(\d+)$", s)\<close>: digits, a slash, digits, then the end of the text or
  one final newline.
\<close>

definition bp_pattern_match :: "string \<Rightarrow> bool" where
  "bp_pattern_match s =
     (takeWhile is_digit s \<noteq> []
      \<and> (case dropWhile is_digit s of
            [] \<Rightarrow> False
          | c # r \<Rightarrow>
              c = CHR ''/'' \<and> takeWhile is_digit r \<noteq> []
              \<and> (dropWhile is_digit r = [] \<or> dropWhile is_digit r = [CHR 0x0A])))"

definition validate_blood_pressure :: "(pyval \<Rightarrow> string) \<Rightarrow> pyval \<Rightarrow> string option" where
  "validate_blood_pressure repr bp_value =
     (if bp_value = PNone \<or> bp_value = PStr [] then None
      else
        (let bp_str = py_strip (py_str repr bp_value) in
         if py_upper bp_str \<in> set [''N/A'', ''NA'', ''INVALID'', ''UNKNOWN'', ''INVALID_BP_FORMAT'']
         then None
         else if \<not> bp_pattern_match bp_str
         then (if CHR ''/'' \<in> set bp_str
                  \<and> length (py_split (CHR ''/'') bp_str) = 2
                  \<and> (py_split (CHR ''/'') bp_str ! 0 = [] \<or> py_split (CHR ''/'') bp_str ! 1 = [])
               then None
               else None)
         else Some bp_str))"

definition validate_age :: "pyval \<Rightarrow> py_error + int option" where
  "validate_age age_value =
     (if age_value = PNone \<or> age_value = PStr [] then Inr None
      else
        (case py_int_of age_value of
           Inr a \<Rightarrow> Inr (Some a)
         | Inl e \<Rightarrow> if e = ValueError \<or> e = TypeError then Inr None else Inl e))"

definition validate_temperature :: "(pyval \<Rightarrow> string) \<Rightarrow> pyval \<Rightarrow> py_error + pyfloat option" where
  "validate_temperature repr temp_value =
     (if temp_value = PNone \<or> temp_value = PStr [] then Inr None
      else
        (let temp_str = py_upper (py_strip (py_str repr temp_value)) in
         if temp_str \<in> set [''TEMP_ERROR'', ''INVALID'', ''UNKNOWN'', ''N/A'', ''NA''] then Inr None
         else
           (case py_float_of temp_value of
              Inr temp \<Rightarrow> Inr (Some temp)
            | Inl e \<Rightarrow> if e = ValueError \<or> e = TypeError then Inr None else Inl e)))"

definition sanitize_patient :: "(pyval \<Rightarrow> string) \<Rightarrow> raw_record \<Rightarrow> py_error + patient" where
  "sanitize_patient repr patient_data =
     (let pid = py_get patient_data ''patient_id'';
          age_raw = py_get patient_data ''age''
      in case validate_age age_raw of
           Inl e \<Rightarrow> Inl e
         | Inr age_v \<Rightarrow>
             (let bp_raw = py_get patient_data ''blood_pressure'';
                  bp = validate_blood_pressure repr bp_raw;
                  temp_raw = py_get patient_data ''temperature''
              in case validate_temperature repr temp_raw of
                   Inl e \<Rightarrow> Inl e
                 | Inr temp \<Rightarrow>
                     Inr \<lparr>patient_id = py_str repr pid, age = age_v, blood_pressure = bp,
                          temperature = temp\<rparr>))"

text \<open>\<^verbatim>\<open>Patient.to_dict\<close> (patient.py): the raw form of a canonical patient.\<close>

definition opt_val :: "('a \<Rightarrow> pyval) \<Rightarrow> 'a option \<Rightarrow> pyval" where
  "opt_val f x = (case x of None \<Rightarrow> PNone | Some y \<Rightarrow> f y)"

definition to_dict :: "patient \<Rightarrow> raw_record" where
  "to_dict p =
     [''patient_id'' \<mapsto> PStr (patient_id p),
      ''age'' \<mapsto> opt_val PInt (age p),
      ''blood_pressure'' \<mapsto> opt_val PStr (blood_pressure p),
      ''temperature'' \<mapsto> opt_val PFloat (temperature p)]"

section \<open>The paginated fetcher (routes.py)\<close>

text \<open>
  The upstream is a script: the list of the outcomes of the successive calls of
  \<^verbatim>\<open>requests.get\<close>, each one a transport failure or a response with a status code and a
  decoded body. Of the body the fetcher reads the key \<^verbatim>\<open>data\<close> (a list of raw records) and
  the key \<^verbatim>\<open>pagination\<close> (a dict), each of which may be absent.

  The fetcher's state is the page number and the accumulated list; the trace of its calls
  of \<^verbatim>\<open>requests.get\<close> (by page) and of \<^verbatim>\<open>time.sleep\<close> (by seconds) is kept beside it. The
  result dict of \<^verbatim>\<open>getPatients\<close> holds the accumulated list under \<^verbatim>\<open>data\<close>; its other
  entries are constants, the length of that list and the clock, and are left out.
\<close>

record json_body =
  body_data :: "raw_record list option"
  body_pagination :: "raw_record option"

datatype response = RequestException | Response nat json_body

datatype event = Get nat | Sleep nat

record fetch_state =
  page :: nat
  all_patients :: "raw_record list"
  trace :: "event list"

definition max_retries :: nat where
  "max_retries = 10"

definition backoff_factor :: nat where
  "backoff_factor = 1"

definition sleep :: "nat \<Rightarrow> fetch_state \<Rightarrow> fetch_state" where
  "sleep secs st = st\<lparr>trace := trace st @ [Sleep secs]\<rparr>"

text \<open>The loop over the raw records of one page; an exception of the sanitizer ends it.\<close>

fun sanitize_all ::
  "(pyval \<Rightarrow> string) \<Rightarrow> raw_record list \<Rightarrow> raw_record list \<Rightarrow> py_error + raw_record list" where
  "sanitize_all repr [] acc = Inr acc"
| "sanitize_all repr (raw_patient # rest) acc =
     (case sanitize_patient repr raw_patient of
        Inl e \<Rightarrow> Inl e
      | Inr sanitized_patient \<Rightarrow> sanitize_all repr rest (acc @ [to_dict sanitized_patient]))"

text \<open>
  One pass through the body of the \<^verbatim>\<open>for attempt in range(max_retries)\<close> loop, after the
  request has been answered by \<open>r\<close>. \<open>Break h\<close> is a \<^verbatim>\<open>break\<close> that leaves \<^verbatim>\<open>has_next\<close> at
  \<open>h\<close>; \<open>Continue\<close> is the end of the body without a \<^verbatim>\<open>break\<close>, which leaves \<^verbatim>\<open>has_next\<close>
  as it was on entry, that is true.
\<close>

datatype outcome = Break bool | Continue

definition attempt_body ::
  "(pyval \<Rightarrow> string) \<Rightarrow> nat \<Rightarrow> fetch_state \<Rightarrow> response \<Rightarrow> py_error + outcome \<times> fetch_state" where
  "attempt_body repr attempt st r =
     (case r of
        Response status_code data \<Rightarrow>
          if status_code = 200 then
            (case (case body_data data of
                     None \<Rightarrow> Inr (all_patients st)
                   | Some raw_patients \<Rightarrow> sanitize_all repr raw_patients (all_patients st)) of
               Inl e \<Rightarrow> Inl e
             | Inr ps \<Rightarrow>
                 Inr (Break (case body_pagination data of
                               None \<Rightarrow> False
                             | Some pg \<Rightarrow>
                                 truthy (case pg ''hasNext'' of
                                           None \<Rightarrow> PBool False
                                         | Some v \<Rightarrow> v)),
                      st\<lparr>all_patients := ps\<rparr>))
          else if status_code = 429 then
            Inr (Continue, sleep (2 * 2 ^ attempt) st)
          else if status_code \<ge> 500 \<and> attempt < max_retries - 1 then
            Inr (Continue, sleep (backoff_factor * 2 ^ attempt) st)
          else Inr (Break False, st)
      | RequestException \<Rightarrow>
          if attempt < max_retries - 1 then
            Inr (Continue, sleep (backoff_factor * 2 ^ attempt) st)
          else Inr (Break False, st))"

text \<open>
  The \<^verbatim>\<open>while has_next\<close> loop and the \<^verbatim>\<open>for\<close> loop inside it, as one recursion over the
  script: every pass of the \<^verbatim>\<open>for\<close> body issues one request and consumes one outcome.
  \<open>None\<close> means that the script ended while the fetcher was still asking.
\<close>

definition next_page :: "fetch_state \<Rightarrow> fetch_state" where
  "next_page st = (sleep 1 st)\<lparr>page := page st + 1\<rparr>"

fun fetch_loop ::
  "(pyval \<Rightarrow> string) \<Rightarrow> nat \<Rightarrow> fetch_state \<Rightarrow> response list \<Rightarrow> (py_error + fetch_state) option"
  where
  "fetch_loop repr attempt st [] = None"
| "fetch_loop repr attempt st (r # rs) =
     (case attempt_body repr attempt (st\<lparr>trace := trace st @ [Get (page st)]\<rparr>) r of
        Inl e \<Rightarrow> Some (Inl e)
      | Inr (Break has_next, st') \<Rightarrow>
          if has_next then fetch_loop repr 0 (next_page st') rs
          else Some (Inr (st'\<lparr>page := page st' + 1\<rparr>))
      | Inr (Continue, st') \<Rightarrow>
          if attempt + 1 < max_retries then fetch_loop repr (attempt + 1) st' rs
          else fetch_loop repr 0 (next_page st') rs)"

definition getPatients ::
  "(pyval \<Rightarrow> string) \<Rightarrow> response list \<Rightarrow> (py_error + fetch_state) option" where
  "getPatients repr responses =
     fetch_loop repr 0 \<lparr>page = 1, all_patients = [], trace = []\<rparr> responses"

section \<open>Vocabulary of the specification\<close>

text \<open>
  The parse that \<open>calculate_bp_risk\<close> and \<open>is_valid_bp\<close> both perform, on its own: split
  at the slash, exactly two parts, each part an integer text once stripped. A blood
  pressure is "parseable as S/D" when this yields \<open>Some (S, D)\<close>.
\<close>

definition bp_parse :: "string \<Rightarrow> (int \<times> int) option" where
  "bp_parse s =
     (let parts = py_split (CHR ''/'') s in
      if length parts \<noteq> 2 then None
      else
        (case py_int (py_strip (parts ! 0)) of
           None \<Rightarrow> None
         | Some a \<Rightarrow>
             (case py_int (py_strip (parts ! 1)) of
                None \<Rightarrow> None
              | Some b \<Rightarrow> Some (a, b))))"

text \<open>The buckets in the words of the specification.\<close>

definition spec_systolic_bucket :: "int \<Rightarrow> int" where
  "spec_systolic_bucket S =
     (if S < 120 then 0 else if S \<le> 129 then 1 else if S \<le> 139 then 2 else 3)"

definition spec_diastolic_bucket :: "int \<Rightarrow> int" where
  "spec_diastolic_bucket D = (if D < 80 then 0 else if D \<le> 89 then 2 else 3)"

text \<open>
  "The temperature is not \<^verbatim>\<open>None\<close> and is at least 99.6", read on the values of a float;
  99.6 is the float that the literal denotes.
\<close>

definition spec_fever :: "pyfloat option \<Rightarrow> bool" where
  "spec_fever temp =
     (case temp of
        None \<Rightarrow> False
      | Some (Finite r) \<Rightarrow> double 99.6 \<le> r
      | Some PosInf \<Rightarrow> True
      | Some NegInf \<Rightarrow> False
      | Some NaN \<Rightarrow> False)"

text \<open>The three validity checks of the data-quality classifier in the words of the specification.\<close>

definition spec_bp_valid :: "string option \<Rightarrow> bool" where
  "spec_bp_valid bp =
     (case bp of
        None \<Rightarrow> False
      | Some s \<Rightarrow>
          (case bp_parse s of
             None \<Rightarrow> False
           | Some (S, D) \<Rightarrow> 0 < S \<and> S \<le> 300 \<and> 0 < D \<and> D \<le> 200))"

definition spec_age_valid :: "int option \<Rightarrow> bool" where
  "spec_age_valid age_value =
     (case age_value of None \<Rightarrow> False | Some a \<Rightarrow> 0 \<le> a \<and> a \<le> 150)"

definition spec_temp_valid :: "pyfloat option \<Rightarrow> bool" where
  "spec_temp_valid temp =
     (case temp of
        Some (Finite r) \<Rightarrow> 0 < r \<and> r \<le> 115
      | _ \<Rightarrow> False)"


section \<open>The doubles of the literals\<close>

text \<open>
  The values of \<open>double\<close> at the decimal literals of the source and of the examples. A
  number strictly within half a unit of an integer rounds to that integer, which gives
  the significand; the exponent comes from the integer part of the literal.
\<close>

lemma round_half_even_near:
  assumes "of_int n - 1 / 2 < q" and "q < of_int n + 1 / 2"
  shows "round_half_even q = n"
proof (cases "of_int n \<le> q")
  case True
  with assms(2) have "\<lfloor>q\<rfloor> = n"
    by (intro floor_unique) simp_all
  with assms(2) show ?thesis
    by (simp add: round_half_even_def)
next
  case False
  with assms(1) have f: "\<lfloor>q\<rfloor> = n - 1"
    by (intro floor_unique) simp_all
  from assms(1) have "\<not> q - of_int (n - 1) < 1 / 2" and "1 / 2 < q - of_int (n - 1)"
    by simp_all
  with f show ?thesis
    by (simp add: round_half_even_def)
qed

lemma ilog2_from_floor:
  assumes "1 \<le> a" and "of_int n \<le> a" and "a < of_int n + 1" and "bit_length (nat n) = Suc k"
  shows "ilog2 a = int k"
proof -
  from assms(2,3) have "\<lfloor>a\<rfloor> = n"
    by (intro floor_unique) simp_all
  with assms(1,4) show ?thesis
    by (simp add: ilog2_def)
qed

lemma double_from_parts:
  assumes "0 < r" and "ilog2 r = e" and "- 1022 \<le> e"
    and "of_int m - 1 / 2 < r / pow2 (e - 52)" and "r / pow2 (e - 52) < of_int m + 1 / 2"
  shows "double r = of_int m * pow2 (e - 52)"
proof -
  from assms(4,5) have h: "round_half_even (r / pow2 (e - 52)) = m"
    by (rule round_half_even_near)
  from assms(1) have p: "r \<noteq> 0" "\<bar>r\<bar> = r" "sgn r = 1"
    by simp_all
  from assms(2,3) have x: "max (ilog2 r) (- 1022) = e"
    by simp
  show ?thesis
    unfolding double_def Let_def p x h using p(1) by simp
qed

lemma bit_length_7: "bit_length 98 = 7" "bit_length 99 = 7" "bit_length 100 = 7"
  by (simp_all add: bit_length.simps)

lemma double_99_5: "double 99.5 = 99.5"
proof -
  have "ilog2 99.5 = int 6"
    by (rule ilog2_from_floor [where n = 99]) (simp_all add: bit_length_7)
  then have "double 99.5 = of_int 7001690045677568 * pow2 (6 - 52)"
    by (intro double_from_parts) (simp_all add: pow2_def)
  then show ?thesis
    by (simp add: pow2_def)
qed

lemma double_99_6: "double 99.6 = 3504363460047667 / 2 ^ 45"
proof -
  have "ilog2 99.6 = int 6"
    by (rule ilog2_from_floor [where n = 99]) (simp_all add: bit_length_7)
  then have "double 99.6 = of_int 7008726920095334 * pow2 (6 - 52)"
    by (intro double_from_parts) (simp_all add: pow2_def)
  then show ?thesis
    by (simp add: pow2_def)
qed

lemma double_100_9: "double 100.9 = 3550103143763149 / 2 ^ 45"
proof -
  have "ilog2 100.9 = int 6"
    by (rule ilog2_from_floor [where n = 100]) (simp_all add: bit_length_7)
  then have "double 100.9 = of_int 7100206287526298 * pow2 (6 - 52)"
    by (intro double_from_parts) (simp_all add: pow2_def)
  then show ?thesis
    by (simp add: pow2_def)
qed

lemma double_98_6: "double 98.6 = 3469179087958835 / 2 ^ 45"
proof -
  have "ilog2 98.6 = int 6"
    by (rule ilog2_from_floor [where n = 98]) (simp_all add: bit_length_7)
  then have "double 98.6 = of_int 6938358175917670 * pow2 (6 - 52)"
    by (intro double_from_parts) (simp_all add: pow2_def)
  then show ?thesis
    by (simp add: pow2_def)
qed

lemma double_99_55: "double 99.55 = 7005208482886451 / 2 ^ 46"
proof -
  have "ilog2 99.55 = int 6"
    by (rule ilog2_from_floor [where n = 99]) (simp_all add: bit_length_7)
  then have "double 99.55 = of_int 7005208482886451 * pow2 (6 - 52)"
    by (intro double_from_parts) (simp_all add: pow2_def)
  then show ?thesis
    by (simp add: pow2_def)
qed

lemma double_100_95: "double 100.95 = 7103724724735181 / 2 ^ 46"
proof -
  have "ilog2 100.95 = int 6"
    by (rule ilog2_from_floor [where n = 100]) (simp_all add: bit_length_7)
  then have "double 100.95 = of_int 7103724724735181 * pow2 (6 - 52)"
    by (intro double_from_parts) (simp_all add: pow2_def)
  then show ?thesis
    by (simp add: pow2_def)
qed

lemma double_99_6_below: "double 99.6 < 99.6" "99.6 - double 99.6 < 1 / 2 ^ 47"
  unfolding double_99_6 by simp_all

lemmas double_literals =
  double_99_5 double_99_6 double_100_9 double_98_6 double_99_55 double_100_95

text \<open>
  Further values of \<open>double\<close>: a tie goes to the even significand, a number below half of
  the smallest subnormal becomes zero, the literal \<^verbatim>\<open>0.1\<close> is the double
  \<open>3602879701896397 / 2^55\<close>, and a decimal close to 99.6 gives the same double as 99.6.
\<close>

lemma pow2_powi: "pow2 k = 2 powi k"
  by (simp add: pow2_def power_int_def inverse_eq_divide power_divide)

lemma pow2_pos: "0 < pow2 k"
  by (simp add: pow2_powi)

lemma pow2_mono: "k \<le> l \<Longrightarrow> pow2 k \<le> pow2 l"
  by (simp add: pow2_powi power_int_increasing)

lemma double_underflow:
  assumes "0 < r" and "r / pow2 (- 1074) < 1 / 2"
  shows "double r = 0"
proof -
  let ?e = "max (ilog2 \<bar>r\<bar>) (- 1022)"
  have "pow2 (- 1074) \<le> pow2 (?e - 52)"
    by (rule pow2_mono) simp
  with assms(1) have "r / pow2 (?e - 52) \<le> r / pow2 (- 1074)"
    by (intro divide_left_mono) (simp_all add: pow2_pos)
  then have "r / pow2 (?e - 52) < 1 / 2"
    using assms(2) by (rule le_less_trans)
  then have u: "r / pow2 (?e - 52) < of_int 0 + 1 / 2"
    by simp
  from assms(1) have "0 \<le> r / pow2 (?e - 52)"
    by (simp add: pow2_pos less_imp_le)
  then have l: "of_int 0 - 1 / 2 < r / pow2 (?e - 52)"
    by simp
  from l u have h: "round_half_even (r / pow2 (?e - 52)) = 0"
    by (rule round_half_even_near)
  from assms(1) have a: "\<bar>r\<bar> = r"
    by simp
  show ?thesis
    unfolding double_def Let_def using h by (simp only: a) simp
qed

lemma round_half_even_tie:
  "round_half_even (of_int n + 1 / 2) = (if even n then n else n + 1)"
proof -
  have "\<lfloor>(of_int n + 1 / 2 :: rat)\<rfloor> = n"
    by (rule floor_unique) simp_all
  then show ?thesis
    by (simp add: round_half_even_def)
qed

lemma bit_length_4: "bit_length 9 = 4"
  by (simp add: bit_length.simps)

lemma double_0_1: "double 0.1 = 3602879701896397 / 2 ^ 55"
proof -
  have c: "\<lceil>1 / (0.1::rat)\<rceil> = 10"
    by (rule ceiling_unique) simp_all
  have "ilog2 0.1 = - 4"
    unfolding ilog2_def c by (simp add: bit_length_4)
  then have "double 0.1 = of_int 7205759403792794 * pow2 (- 4 - 52)"
    by (intro double_from_parts) (simp_all add: pow2_def)
  then show ?thesis
    by (simp add: pow2_def)
qed

lemma double_99_6_long: "double 99.59999999999999999 = double 99.6"
proof -
  have "ilog2 99.59999999999999999 = int 6"
    by (rule ilog2_from_floor [where n = 99]) (simp_all add: bit_length_7)
  then have "double 99.59999999999999999 = of_int 7008726920095334 * pow2 (6 - 52)"
    by (intro double_from_parts) (simp_all add: pow2_def)
  then show ?thesis
    unfolding double_99_6 by (simp add: pow2_def)
qed
section \<open>Properties of the risk scorer\<close>

lemma calculate_bp_risk_range: "0 \<le> calculate_bp_risk bp \<and> calculate_bp_risk bp \<le> 3"
  by (simp add: calculate_bp_risk_def Let_def split: option.splits)

lemma calculate_temp_risk_range:
  "0 \<le> calculate_temp_risk temp \<and> calculate_temp_risk temp \<le> 2"
  by (simp add: calculate_temp_risk_def split: option.splits)

lemma calculate_age_risk_range:
  "0 \<le> calculate_age_risk age_value \<and> calculate_age_risk age_value \<le> 2"
  by (simp add: calculate_age_risk_def split: option.splits)

lemma calculate_bp_risk_parse:
  "calculate_bp_risk (Some s) =
     (case bp_parse s of
        None \<Rightarrow> 0
      | Some (S, D) \<Rightarrow> max (spec_systolic_bucket S) (spec_diastolic_bucket D))"
proof (cases "s = []")
  case True
  then show ?thesis
    by (simp add: calculate_bp_risk_def bp_parse_def)
next
  case False
  then show ?thesis
    by (auto simp add: calculate_bp_risk_def bp_parse_def Let_def spec_systolic_bucket_def
        spec_diastolic_bucket_def split: option.splits)
qed

text \<open>
  A blood pressure in the canonical format, a non-empty run of digits, a slash and a
  non-empty run of digits, parses to the two numbers the runs denote.
\<close>

lemma py_strip_no_space:
  assumes "\<forall>c \<in> set s. \<not> py_isspace c"
  shows "py_strip s = s"
proof -
  have "dropWhile py_isspace s = s"
    using assms by (intro dropWhile_id) blast
  moreover have "dropWhile py_isspace (rev s) = rev s"
    using assms by (intro dropWhile_id) simp
  ultimately show ?thesis
    by (simp add: py_strip_def)
qed

lemma c_strip_no_space:
  assumes "\<forall>c \<in> set s. \<not> c_isspace c"
  shows "c_strip s = s"
proof -
  have "dropWhile c_isspace s = s"
    using assms by (intro dropWhile_id) blast
  moreover have "dropWhile c_isspace (rev s) = rev s"
    using assms by (intro dropWhile_id) simp
  ultimately show ?thesis
    by (simp add: c_strip_def)
qed

lemma py_split_no_sep: "sep \<notin> set s \<Longrightarrow> py_split sep s = [s]"
  by (induction s) auto

lemma py_split_one_sep:
  "sep \<notin> set a \<Longrightarrow> sep \<notin> set b \<Longrightarrow> py_split sep (a @ sep # b) = [a, b]"
  by (induction a) (auto simp add: py_split_no_sep)

lemma digit_run_digits:
  "ds \<noteq> [] \<Longrightarrow> \<forall>c \<in> set ds. is_digit c \<Longrightarrow> digit_run ds = Some ds"
proof (induction ds rule: digit_run.induct)
  case 1
  then show ?case by simp
next
  case (2 c)
  then show ?case by simp
next
  case (3 c d cs)
  then have "d \<noteq> CHR ''_''"
    by (auto simp add: is_digit_def)
  with 3 show ?case
    by simp
qed

lemma is_digit_not_space: "is_digit c \<Longrightarrow> \<not> py_isspace c \<and> \<not> c_isspace c"
  by (auto simp add: is_digit_def py_isspace_def c_isspace_def Let_def)

lemma is_digit_not_sign: "is_digit c \<Longrightarrow> c \<noteq> CHR ''-'' \<and> c \<noteq> CHR ''+'' \<and> c \<noteq> CHR ''/''"
  by (auto simp add: is_digit_def)

lemma py_int_digits:
  assumes "ds \<noteq> []" and "\<forall>c \<in> set ds. is_digit c"
  shows "py_int (py_strip ds) = Some (int (digits_value ds))"
proof -
  from assms(2) have s: "py_strip ds = ds"
    by (intro py_strip_no_space) (auto dest: is_digit_not_space)
  from assms(2) have t: "c_strip ds = ds"
    by (intro c_strip_no_space) (auto dest: is_digit_not_space)
  from assms obtain c cs where ds: "ds = c # cs" and c: "is_digit c"
    by (cases ds) auto
  from assms have r: "digit_run ds = Some ds"
    by (rule digit_run_digits)
  have "py_int ds = Some (int (digits_value ds))"
    unfolding py_int_def t using c is_digit_not_sign [of c] r
    by (simp add: ds)
  then show ?thesis
    by (simp only: s)
qed

lemma bp_parse_canonical:
  assumes "a \<noteq> []" and "b \<noteq> []"
    and "\<forall>c \<in> set a. is_digit c" and "\<forall>c \<in> set b. is_digit c"
  shows "bp_parse (a @ CHR ''/'' # b) = Some (int (digits_value a), int (digits_value b))"
proof -
  from assms(3,4) have "CHR ''/'' \<notin> set a" and "CHR ''/'' \<notin> set b"
    using is_digit_not_sign by blast+
  then have "py_split (CHR ''/'') (a @ CHR ''/'' # b) = [a, b]"
    by (rule py_split_one_sep)
  with py_int_digits [OF assms(1,3)] py_int_digits [OF assms(2,4)] show ?thesis
    by (simp add: bp_parse_def)
qed

lemmas string_eval =
  py_int_def py_strip_def py_isspace_def c_strip_def c_isspace_def is_digit_def
  digits_value_def

lemma calculate_total_risk_le_7: "calculate_total_risk p \<le> 7"
  using calculate_bp_risk_range [of "blood_pressure p"]
    calculate_temp_risk_range [of "temperature p"] calculate_age_risk_range [of "age p"]
  by (simp add: calculate_total_risk_def)

text \<open>
  Claim C1. The total risk of a patient is the sum of the three sub-scores; the blood
  pressure score lies in 0..3, the temperature score and the age score in 0..2, so the
  total lies in 0..8. The total is a function of the three scored fields alone: two
  patients that agree on age, blood pressure and temperature get the same total.
\<close>

theorem calculate_total_risk_sum_bounds:
  "calculate_total_risk p =
     calculate_bp_risk (blood_pressure p) + calculate_temp_risk (temperature p)
       + calculate_age_risk (age p)
   \<and> 0 \<le> calculate_bp_risk (blood_pressure p) \<and> calculate_bp_risk (blood_pressure p) \<le> 3
   \<and> 0 \<le> calculate_temp_risk (temperature p) \<and> calculate_temp_risk (temperature p) \<le> 2
   \<and> 0 \<le> calculate_age_risk (age p) \<and> calculate_age_risk (age p) \<le> 2
   \<and> 0 \<le> calculate_total_risk p \<and> calculate_total_risk p \<le> 8
   \<and> calculate_total_risk
        \<lparr>patient_id = i, age = age p, blood_pressure = blood_pressure p,
         temperature = temperature p\<rparr> = calculate_total_risk p"
proof -
  have s: "calculate_total_risk p =
      calculate_bp_risk (blood_pressure p) + calculate_temp_risk (temperature p)
        + calculate_age_risk (age p)"
    by (simp add: calculate_total_risk_def)
  have i: "calculate_total_risk
        \<lparr>patient_id = i, age = age p, blood_pressure = blood_pressure p,
         temperature = temperature p\<rparr> = calculate_total_risk p"
    by (simp add: calculate_total_risk_def)
  note b = calculate_bp_risk_range [of "blood_pressure p"]
  note t = calculate_temp_risk_range [of "temperature p"]
  note a = calculate_age_risk_range [of "age p"]
  from b t a have "0 \<le> calculate_total_risk p \<and> calculate_total_risk p \<le> 8"
    unfolding s by linarith
  with s i b t a show ?thesis
    by blast
qed

theorem calculate_total_risk_sum_bounds_witness:
  "calculate_total_risk
     \<lparr>patient_id = ''TEST004'', age = Some 50, blood_pressure = Some ''135/79'',
      temperature = Some (Finite (double 99.6))\<rparr> = 2 + 1 + 1"
  using calculate_total_risk_sum_bounds
    [of "\<lparr>patient_id = ''TEST004'', age = Some 50, blood_pressure = Some ''135/79'',
          temperature = Some (Finite (double 99.6))\<rparr>"]
  unfolding calculate_temp_risk_def double_literals
  by (simp add: calculate_bp_risk_def calculate_age_risk_def string_eval)

text \<open>
  Claim C2. A missing blood pressure, and one that does not parse as two integers around
  a slash, scores 0. One that parses as S/D scores the larger of the systolic bucket
  (0 below 120, 1 for 120..129, 2 for 130..139, 3 from 140) and the diastolic bucket
  (0 below 80, 2 for 80..89, 3 from 90); in particular a text of digits, a slash and
  digits scores by the two numbers it writes. The readings 119, 120, 129, 130, 139, 140
  and 79, 80, 89, 90 fall on those edges.
\<close>

theorem calculate_bp_risk_buckets:
  "calculate_bp_risk None = 0
   \<and> (bp_parse s = None \<longrightarrow> calculate_bp_risk (Some s) = 0)
   \<and> (bp_parse s = Some (S, D) \<longrightarrow>
        calculate_bp_risk (Some s) = max (spec_systolic_bucket S) (spec_diastolic_bucket D))
   \<and> (a \<noteq> [] \<and> b \<noteq> [] \<and> (\<forall>c \<in> set a. is_digit c) \<and> (\<forall>c \<in> set b. is_digit c) \<longrightarrow>
        calculate_bp_risk (Some (a @ CHR ''/'' # b)) =
          max (spec_systolic_bucket (int (digits_value a)))
              (spec_diastolic_bucket (int (digits_value b))))
   \<and> calculate_bp_risk (Some ''119/79'') = 0
   \<and> calculate_bp_risk (Some ''120/79'') = 1
   \<and> calculate_bp_risk (Some ''129/79'') = 1
   \<and> calculate_bp_risk (Some ''130/79'') = 2
   \<and> calculate_bp_risk (Some ''139/79'') = 2
   \<and> calculate_bp_risk (Some ''140/79'') = 3
   \<and> calculate_bp_risk (Some ''119/80'') = 2
   \<and> calculate_bp_risk (Some ''119/89'') = 2
   \<and> calculate_bp_risk (Some ''119/90'') = 3"
proof -
  have n: "calculate_bp_risk None = 0"
    by (simp add: calculate_bp_risk_def)
  have u: "bp_parse s = None \<longrightarrow> calculate_bp_risk (Some s) = 0"
    by (simp add: calculate_bp_risk_parse)
  have m: "bp_parse s = Some (S, D) \<longrightarrow>
      calculate_bp_risk (Some s) = max (spec_systolic_bucket S) (spec_diastolic_bucket D)"
    by (simp add: calculate_bp_risk_parse)
  have c: "a \<noteq> [] \<and> b \<noteq> [] \<and> (\<forall>c \<in> set a. is_digit c) \<and> (\<forall>c \<in> set b. is_digit c) \<longrightarrow>
        calculate_bp_risk (Some (a @ CHR ''/'' # b)) =
          max (spec_systolic_bucket (int (digits_value a)))
              (spec_diastolic_bucket (int (digits_value b)))"
    by (simp add: calculate_bp_risk_parse bp_parse_canonical)
  have e1: "calculate_bp_risk (Some ''119/79'') = 0"
    by (simp add: calculate_bp_risk_def string_eval)
  have e2: "calculate_bp_risk (Some ''120/79'') = 1"
    by (simp add: calculate_bp_risk_def string_eval)
  have e3: "calculate_bp_risk (Some ''129/79'') = 1"
    by (simp add: calculate_bp_risk_def string_eval)
  have e4: "calculate_bp_risk (Some ''130/79'') = 2"
    by (simp add: calculate_bp_risk_def string_eval)
  have e5: "calculate_bp_risk (Some ''139/79'') = 2"
    by (simp add: calculate_bp_risk_def string_eval)
  have e6: "calculate_bp_risk (Some ''140/79'') = 3"
    by (simp add: calculate_bp_risk_def string_eval)
  have e7: "calculate_bp_risk (Some ''119/80'') = 2"
    by (simp add: calculate_bp_risk_def string_eval)
  have e8: "calculate_bp_risk (Some ''119/89'') = 2"
    by (simp add: calculate_bp_risk_def string_eval)
  have e9: "calculate_bp_risk (Some ''119/90'') = 3"
    by (simp add: calculate_bp_risk_def string_eval)
  from n u m c e1 e2 e3 e4 e5 e6 e7 e8 e9 show ?thesis
    by blast
qed

theorem calculate_bp_risk_buckets_witness:
  "bp_parse ''135/85'' = Some (135, 85) \<and> calculate_bp_risk (Some ''135/85'') = 2
   \<and> bp_parse ''150/'' = None \<and> calculate_bp_risk (Some ''150/'') = 0
   \<and> list_all is_digit ''145'' \<and> list_all is_digit ''75''
   \<and> calculate_bp_risk (Some (''145'' @ CHR ''/'' # ''75'')) = 3"
proof -
  have p: "bp_parse ''135/85'' = Some (135, 85)"
    by (simp add: bp_parse_def string_eval)
  have q: "bp_parse ''150/'' = None"
    by (simp add: bp_parse_def string_eval)
  have d: "\<forall>c \<in> set ''145''. is_digit c" "\<forall>c \<in> set ''75''. is_digit c"
    by (simp_all add: is_digit_def)
  have v: "digits_value ''145'' = 145" "digits_value ''75'' = 75"
    by (simp_all add: digits_value_def)
  from calculate_bp_risk_buckets [of "''135/85''" 135 85] p
  have "calculate_bp_risk (Some ''135/85'') = 2"
    by (simp add: spec_systolic_bucket_def spec_diastolic_bucket_def)
  moreover from calculate_bp_risk_buckets [of "''150/''"] q
  have "calculate_bp_risk (Some ''150/'') = 0"
    by blast
  moreover from calculate_bp_risk_buckets [of _ _ _ "''145''" "''75''"] d
  have "calculate_bp_risk (Some (''145'' @ CHR ''/'' # ''75''))
      = max (spec_systolic_bucket (int (digits_value ''145'')))
            (spec_diastolic_bucket (int (digits_value ''75'')))"
    by blast
  then have "calculate_bp_risk (Some (''145'' @ CHR ''/'' # ''75'')) = 3"
    by (simp only: v) (simp add: spec_systolic_bucket_def spec_diastolic_bucket_def)
  moreover have "list_all is_digit ''145''" "list_all is_digit ''75''"
    by (simp_all add: is_digit_def)
  ultimately show ?thesis
    using p q by blast
qed

section \<open>Properties of the classifiers\<close>

lemma fold_append_filter:
  "fold (\<lambda>p ids. if P p then ids @ [f p] else ids) ps acc = acc @ map f (filter P ps)"
  by (induction ps arbitrary: acc) simp_all

lemma get_high_risk_patients_filter:
  "get_high_risk_patients ps = map patient_id (filter (\<lambda>p. calculate_total_risk p \<ge> 4) ps)"
proof -
  have "get_high_risk_patients ps =
      fold (\<lambda>p ids. if calculate_total_risk p \<ge> 4 then ids @ [patient_id p] else ids) ps []"
    by (simp only: get_high_risk_patients_def Let_def)
  also have "\<dots> = [] @ map patient_id (filter (\<lambda>p. calculate_total_risk p \<ge> 4) ps)"
    by (rule fold_append_filter)
  finally show ?thesis
    by simp
qed

lemma get_fever_patients_filter:
  "get_fever_patients ps =
     map patient_id
       (filter (\<lambda>p. case temperature p of None \<Rightarrow> False | Some t \<Rightarrow> float_ge t (Finite (double 99.6))) ps)"
proof -
  have body: "(\<lambda>p fever_ids.
           case temperature p of
             None \<Rightarrow> fever_ids
           | Some t \<Rightarrow>
               if float_ge t (Finite (double 99.6)) then fever_ids @ [patient_id p]
               else fever_ids)
      = (\<lambda>p ids. if (case temperature p of
                        None \<Rightarrow> False
                      | Some t \<Rightarrow> float_ge t (Finite (double 99.6)))
                  then ids @ [patient_id p] else ids)"
    by (auto simp add: fun_eq_iff split: option.splits)
  have "get_fever_patients ps =
      [] @ map patient_id
       (filter (\<lambda>p. case temperature p of None \<Rightarrow> False | Some t \<Rightarrow> float_ge t (Finite (double 99.6))) ps)"
    unfolding get_fever_patients_def body by (rule fold_append_filter)
  then show ?thesis
    by simp
qed

lemma get_data_quality_issues_filter:
  "get_data_quality_issues ps =
     map patient_id
       (filter (\<lambda>p. \<not> is_valid_bp (blood_pressure p) \<or> \<not> is_valid_age (age p)
                  \<or> \<not> is_valid_temperature (temperature p)) ps)"
proof -
  have body: "(\<lambda>p patient_ids_with_issues.
             let has_issue = False;
                 has_issue = (if \<not> is_valid_bp (blood_pressure p) then True else has_issue);
                 has_issue = (if \<not> is_valid_age (age p) then True else has_issue);
                 has_issue =
                   (if \<not> is_valid_temperature (temperature p) then True else has_issue)
             in if has_issue then patient_ids_with_issues @ [patient_id p]
                else patient_ids_with_issues)
      = (\<lambda>p ids.
           if \<not> is_valid_bp (blood_pressure p) \<or> \<not> is_valid_age (age p)
              \<or> \<not> is_valid_temperature (temperature p)
           then ids @ [patient_id p] else ids)"
    by (auto simp add: fun_eq_iff Let_def)
  have "get_data_quality_issues ps =
     [] @ map patient_id
       (filter (\<lambda>p. \<not> is_valid_bp (blood_pressure p) \<or> \<not> is_valid_age (age p)
                  \<or> \<not> is_valid_temperature (temperature p)) ps)"
    unfolding get_data_quality_issues_def body by (rule fold_append_filter)
  then show ?thesis
    by simp
qed

lemma fever_test_spec:
  "(case temp of None \<Rightarrow> False | Some t \<Rightarrow> float_ge t (Finite (double 99.6)))
     = spec_fever temp"
proof (cases temp)
  case None
  then show ?thesis by (simp add: spec_fever_def)
next
  case (Some t)
  then show ?thesis
    by (cases t) (simp_all add: spec_fever_def float_ge_def)
qed

text \<open>
  Claim C4. The fever classifier returns the id of a patient exactly when the patient's
  temperature is present and at least 99.6: its output is the ids, in order, of the
  patients with such a temperature, so an id is in the output iff some patient of the
  input carries it together with such a temperature. The numbers are floats: the float
  99.5 is the number 99.5, and the float 99.6 is the double \<open>3504363460047667 / 2^45\<close>.
  A temperature equal to the float 99.5 is left out, one equal to the float 99.6 is
  taken, and so is every finite temperature from that double on and none below it. The
  test reads the temperature itself and no risk bucket.
\<close>

theorem get_fever_patients_iff:
  "get_fever_patients ps = map patient_id (filter (\<lambda>p. spec_fever (temperature p)) ps)
   \<and> (i \<in> set (get_fever_patients ps)
        \<longleftrightarrow> (\<exists>p \<in> set ps. patient_id p = i \<and> spec_fever (temperature p)))
   \<and> double 99.5 = 99.5
   \<and> double 99.6 = 3504363460047667 / 2 ^ 45
   \<and> get_fever_patients
        [\<lparr>patient_id = a, age = y, blood_pressure = b,
          temperature = Some (Finite (double 99.5))\<rparr>] = []
   \<and> get_fever_patients
        [\<lparr>patient_id = a, age = y, blood_pressure = b,
          temperature = Some (Finite (double 99.6))\<rparr>] = [a]
   \<and> get_fever_patients
        [\<lparr>patient_id = a, age = y, blood_pressure = b, temperature = Some (Finite r)\<rparr>]
       = (if 3504363460047667 / 2 ^ 45 \<le> r then [a] else [])"
proof -
  have eq: "get_fever_patients qs = map patient_id (filter (\<lambda>p. spec_fever (temperature p)) qs)"
    for qs
    by (simp add: get_fever_patients_filter fever_test_spec)
  have mem: "i \<in> set (get_fever_patients ps)
      \<longleftrightarrow> (\<exists>p \<in> set ps. patient_id p = i \<and> spec_fever (temperature p))"
    unfolding eq by auto
  have lo: "get_fever_patients
      [\<lparr>patient_id = a, age = y, blood_pressure = b,
        temperature = Some (Finite (double 99.5))\<rparr>] = []"
    unfolding eq spec_fever_def double_literals by simp
  have hi: "get_fever_patients
      [\<lparr>patient_id = a, age = y, blood_pressure = b,
        temperature = Some (Finite (double 99.6))\<rparr>] = [a]"
    unfolding eq spec_fever_def double_literals by simp
  have cut: "get_fever_patients
      [\<lparr>patient_id = a, age = y, blood_pressure = b, temperature = Some (Finite r)\<rparr>]
       = (if 3504363460047667 / 2 ^ 45 \<le> r then [a] else [])"
    unfolding eq spec_fever_def double_literals by simp
  from eq [of ps] mem double_99_5 double_99_6 lo hi cut show ?thesis
    by blast
qed

theorem get_fever_patients_iff_witness:
  "get_fever_patients
     [\<lparr>patient_id = ''TEST005'', age = Some 45, blood_pressure = Some ''120/80'',
       temperature = Some (Finite (double 99.5))\<rparr>,
      \<lparr>patient_id = ''TEST006'', age = Some 45, blood_pressure = Some ''120/80'',
       temperature = Some (Finite (double 99.6))\<rparr>,
      \<lparr>patient_id = ''TEST016'', age = Some 45, blood_pressure = Some ''120/80'',
       temperature = None\<rparr>,
      \<lparr>patient_id = ''TEST008'', age = Some 45, blood_pressure = Some ''120/80'',
       temperature = Some (Finite 101.5)\<rparr>]
   = [''TEST006'', ''TEST008'']
   \<and> ''TEST006'' \<in> set (get_fever_patients
        [\<lparr>patient_id = ''TEST006'', age = Some 45, blood_pressure = Some ''120/80'',
          temperature = Some (Finite (double 99.6))\<rparr>])"
  using get_fever_patients_iff
    [of "[\<lparr>patient_id = ''TEST005'', age = Some 45, blood_pressure = Some ''120/80'',
            temperature = Some (Finite (double 99.5))\<rparr>,
          \<lparr>patient_id = ''TEST006'', age = Some 45, blood_pressure = Some ''120/80'',
            temperature = Some (Finite (double 99.6))\<rparr>,
          \<lparr>patient_id = ''TEST016'', age = Some 45, blood_pressure = Some ''120/80'',
            temperature = None\<rparr>,
          \<lparr>patient_id = ''TEST008'', age = Some 45, blood_pressure = Some ''120/80'',
            temperature = Some (Finite 101.5)\<rparr>]"]
    get_fever_patients_iff
    [of "[\<lparr>patient_id = ''TEST006'', age = Some 45, blood_pressure = Some ''120/80'',
            temperature = Some (Finite (double 99.6))\<rparr>]" "''TEST006''"]
  unfolding spec_fever_def double_literals by simp

text \<open>
  Claim C9. Each of the three classifiers returns the \<open>patient_id\<close> of every input patient
  that passes its test, in the order of the input: the output is the input filtered by
  the test and projected to the id. Nothing is removed or merged, so a patient listed
  twice is reported twice.
\<close>

theorem classifiers_filter_projection:
  "get_high_risk_patients ps = map patient_id (filter (\<lambda>p. calculate_total_risk p \<ge> 4) ps)
   \<and> get_fever_patients ps =
       map patient_id
         (filter (\<lambda>p. case temperature p of None \<Rightarrow> False
                                         | Some t \<Rightarrow> float_ge t (Finite (double 99.6))) ps)
   \<and> get_data_quality_issues ps =
       map patient_id
         (filter (\<lambda>p. \<not> is_valid_bp (blood_pressure p) \<or> \<not> is_valid_age (age p)
                    \<or> \<not> is_valid_temperature (temperature p)) ps)"
  using get_high_risk_patients_filter [of ps] get_fever_patients_filter [of ps]
    get_data_quality_issues_filter [of ps]
  by blast

theorem classifiers_filter_projection_witness:
  "get_high_risk_patients
     [\<lparr>patient_id = ''TEST019'', age = None, blood_pressure = Some ''120/80'',
       temperature = Some (Finite 101.0)\<rparr>,
      \<lparr>patient_id = ''TEST001'', age = Some 35, blood_pressure = Some ''119/79'',
       temperature = Some (Finite (double 98.6))\<rparr>,
      \<lparr>patient_id = ''TEST019'', age = None, blood_pressure = Some ''120/80'',
       temperature = Some (Finite 101.0)\<rparr>] = [''TEST019'', ''TEST019'']
   \<and> get_fever_patients
     [\<lparr>patient_id = ''TEST019'', age = None, blood_pressure = Some ''120/80'',
       temperature = Some (Finite 101.0)\<rparr>,
      \<lparr>patient_id = ''TEST001'', age = Some 35, blood_pressure = Some ''119/79'',
       temperature = Some (Finite (double 98.6))\<rparr>,
      \<lparr>patient_id = ''TEST019'', age = None, blood_pressure = Some ''120/80'',
       temperature = Some (Finite 101.0)\<rparr>] = [''TEST019'', ''TEST019'']
   \<and> get_data_quality_issues
     [\<lparr>patient_id = ''TEST019'', age = None, blood_pressure = Some ''120/80'',
       temperature = Some (Finite 101.0)\<rparr>,
      \<lparr>patient_id = ''TEST001'', age = Some 35, blood_pressure = Some ''119/79'',
       temperature = Some (Finite (double 98.6))\<rparr>,
      \<lparr>patient_id = ''TEST019'', age = None, blood_pressure = Some ''120/80'',
       temperature = Some (Finite 101.0)\<rparr>] = [''TEST019'', ''TEST019'']"
  using classifiers_filter_projection
    [of "[\<lparr>patient_id = ''TEST019'', age = None, blood_pressure = Some ''120/80'',
            temperature = Some (Finite 101.0)\<rparr>,
          \<lparr>patient_id = ''TEST001'', age = Some 35, blood_pressure = Some ''119/79'',
            temperature = Some (Finite (double 98.6))\<rparr>,
          \<lparr>patient_id = ''TEST019'', age = None, blood_pressure = Some ''120/80'',
            temperature = Some (Finite 101.0)\<rparr>]"]
  unfolding calculate_total_risk_def calculate_temp_risk_def double_literals
  by (simp add: calculate_bp_risk_def calculate_age_risk_def is_valid_bp_def
      is_valid_age_def is_valid_temperature_def float_ge_def float_gt_def string_eval)

section \<open>Temperature buckets and range checks on values between and beyond the thresholds\<close>

lemma calculate_temp_risk_finite:
  "(calculate_temp_risk (Some (Finite r)) = 0 \<longleftrightarrow> r \<le> double 99.5)
   \<and> (calculate_temp_risk (Some (Finite r)) = 1 \<longleftrightarrow> double 99.6 \<le> r \<and> r \<le> double 100.9)
   \<and> (calculate_temp_risk (Some (Finite r)) = 2 \<longleftrightarrow>
        (double 99.5 < r \<and> r < double 99.6) \<or> double 100.9 < r)"
  unfolding calculate_temp_risk_def double_literals by auto

lemma calculate_temp_risk_from_101:
  "101.0 \<le> r \<Longrightarrow> calculate_temp_risk (Some (Finite r)) = 2"
  unfolding calculate_temp_risk_def double_literals by simp

text \<open>
  Claim C3 (the code departs from it). The claim gives the score 2 to the temperatures
  from 101.0 on and to no other. The function returns 2 in its final \<^verbatim>\<open>else\<close>, which
  also takes every temperature strictly between 99.5 and 99.6, every temperature strictly
  between 100.9 and 101.0, and NaN: 99.55 scores 2, above the score 1 of 100.0. This is
  so for the numbers 99.55 and 100.95 and for the floats that these literals denote.
\<close>

theorem calculate_temp_risk_between_buckets:
  "calculate_temp_risk (Some (Finite 99.55)) = 2
   \<and> calculate_temp_risk (Some (Finite 100.95)) = 2
   \<and> calculate_temp_risk (Some NaN) = 2
   \<and> calculate_temp_risk (Some (Finite 100.0)) = 1
   \<and> \<not> (101.0 \<le> (99.55 :: rat))
   \<and> calculate_temp_risk (Some (Finite (double 99.55))) = 2
   \<and> calculate_temp_risk (Some (Finite (double 100.95))) = 2
   \<and> \<not> (101.0 \<le> double 99.55)"
  unfolding calculate_temp_risk_def double_literals by simp

lemma is_valid_bp_spec: "is_valid_bp bp = spec_bp_valid bp"
  by (auto simp add: is_valid_bp_def spec_bp_valid_def bp_parse_def Let_def
      split: option.splits)

lemma is_valid_age_spec: "is_valid_age age_value = spec_age_valid age_value"
  by (auto simp add: is_valid_age_def spec_age_valid_def split: option.splits)

lemma is_valid_temperature_spec:
  "temp \<noteq> Some NaN \<Longrightarrow> is_valid_temperature temp = spec_temp_valid temp"
proof (cases temp)
  case None
  then show ?thesis
    by (simp add: is_valid_temperature_def spec_temp_valid_def)
next
  case (Some t)
  assume "temp \<noteq> Some NaN"
  with Some show ?thesis
    by (cases t) (auto simp add: is_valid_temperature_def spec_temp_valid_def float_gt_def)
qed

lemma get_data_quality_issues_spec:
  assumes "\<forall>p \<in> set ps. temperature p \<noteq> Some NaN"
  shows "get_data_quality_issues ps =
           map patient_id
             (filter (\<lambda>p. \<not> spec_bp_valid (blood_pressure p) \<or> \<not> spec_age_valid (age p)
                        \<or> \<not> spec_temp_valid (temperature p)) ps)"
proof -
  have "filter (\<lambda>p. \<not> is_valid_bp (blood_pressure p) \<or> \<not> is_valid_age (age p)
                  \<or> \<not> is_valid_temperature (temperature p)) ps
      = filter (\<lambda>p. \<not> spec_bp_valid (blood_pressure p) \<or> \<not> spec_age_valid (age p)
                  \<or> \<not> spec_temp_valid (temperature p)) ps"
    using assms
    by (intro filter_cong refl)
      (simp add: is_valid_bp_spec is_valid_age_spec is_valid_temperature_spec)
  then show ?thesis
    by (simp add: get_data_quality_issues_filter)
qed

lemma none_field_flagged:
  "age p = None \<or> blood_pressure p = None \<or> temperature p = None
   \<Longrightarrow> get_data_quality_issues [p] = [patient_id p]"
  by (auto simp add: get_data_quality_issues_filter is_valid_age_def is_valid_bp_def
      is_valid_temperature_def)

text \<open>
  The format check of the sanitizer and the range check of the classifier are two checks:
  a blood pressure of \<^verbatim>\<open>0/80\<close> or \<^verbatim>\<open>301/80\<close> passes the first and fails the second.
\<close>

lemma sanitized_bp_out_of_range:
  "validate_blood_pressure repr (PStr ''0/80'') = Some ''0/80''"
  "\<not> is_valid_bp (Some ''0/80'')"
  "validate_blood_pressure repr (PStr ''301/80'') = Some ''301/80''"
  "\<not> is_valid_bp (Some ''301/80'')"
  by (simp_all add: validate_blood_pressure_def py_str_def py_strip_def py_isspace_def
      py_upper_def to_upper_def bp_pattern_match_def is_digit_def is_valid_bp_def py_int_def
      c_strip_def c_isspace_def digits_value_def)

text \<open>
  Claim C5 (the code departs from it). The claim flags a patient whose temperature is not
  a number above 0 and at most 115. The range test of the classifier rejects a
  temperature \<open>t\<close> when \<open>t \<le> 0\<close> or \<open>t > 115\<close>; both comparisons are false on NaN, so a
  patient whose temperature is NaN and whose other fields are in range is not flagged.
\<close>

theorem get_data_quality_issues_nan:
  "get_data_quality_issues
     [\<lparr>patient_id = ''P1'', age = Some 45, blood_pressure = Some ''120/80'',
       temperature = Some NaN\<rparr>] = []
   \<and> is_valid_temperature (Some NaN)
   \<and> \<not> spec_temp_valid (Some NaN)"
  by (simp add: get_data_quality_issues_filter is_valid_bp_def is_valid_age_def
      is_valid_temperature_def spec_temp_valid_def float_gt_def string_eval)

section \<open>Properties of the sanitizer\<close>

subsection \<open>What the conversions read\<close>

text \<open>
  \<^verbatim>\<open>float(text)\<close> rounds the decimal it reads, so a text close to 99.6 gives the float
  99.6 and a text below the subnormals gives zero; neither \<^verbatim>\<open>float\<close> nor \<^verbatim>\<open>int\<close> skips
  the separator characters 28 to 31 that \<^verbatim>\<open>str.strip()\<close> removes.
\<close>

lemmas float_text_eval =
  py_float_str_def c_strip_def c_isspace_def py_lower_def to_lower_def decimal_value_def
  mantissa_value_def exponent_value_def opt_digit_run_def is_digit_def digits_value_def
  scale10_def float_of_rat_def beyond_double_def

lemma float_text_examples:
  "py_float_str ''99.59999999999999999'' = Some (Finite (double 99.6))"
  "py_float_str (CHR 0x1F # ''98.5'') = None"
  "validate_age (PStr (''24'' @ [CHR 0x1C])) = Inr None"
proof -
  have "py_float_str ''99.59999999999999999'' = Some (Finite (double 99.59999999999999999))"
    by (simp add: float_text_eval)
  then show "py_float_str ''99.59999999999999999'' = Some (Finite (double 99.6))"
    by (simp only: double_99_6_long)
  show "py_float_str (CHR 0x1F # ''98.5'') = None"
    by (simp add: float_text_eval)
  show "validate_age (PStr (''24'' @ [CHR 0x1C])) = Inr None"
    by (simp add: validate_age_def py_int_of_def string_eval)
qed

lemma float_text_underflow: "py_float_str ''1e-400'' = Some (Finite 0)"
proof -
  have "double (1 / 10 ^ 400) = 0"
    by (rule double_underflow) (simp_all add: pow2_def)
  moreover have "py_float_str ''1e-400'' = Some (Finite (double (1 / 10 ^ 400)))"
    by (simp add: float_text_eval)
  ultimately show ?thesis
    by simp
qed

subsection \<open>Which records make it raise\<close>

lemma validate_age_returns:
  "v \<noteq> PFloat PosInf \<Longrightarrow> v \<noteq> PFloat NegInf \<Longrightarrow> \<exists>a. validate_age v = Inr a"
  by (auto simp add: validate_age_def py_int_of_def split: pyval.splits pyfloat.splits option.splits)

lemma validate_temperature_returns:
  "\<forall>i. v = PInt i \<longrightarrow> \<not> beyond_double (of_int i) \<Longrightarrow> \<exists>t. validate_temperature repr v = Inr t"
  by (auto simp add: validate_temperature_def py_float_of_def Let_def
      split: pyval.splits option.splits)

lemma sanitize_patient_returns:
  assumes "py_get x ''age'' \<noteq> PFloat PosInf" and "py_get x ''age'' \<noteq> PFloat NegInf"
    and "\<forall>i. py_get x ''temperature'' = PInt i \<longrightarrow> \<not> beyond_double (of_int i)"
  shows "\<exists>p. sanitize_patient repr x = Inr p"
proof -
  from assms(1,2) obtain a where "validate_age (py_get x ''age'') = Inr a"
    using validate_age_returns by blast
  moreover from assms(3) obtain t
    where "validate_temperature repr (py_get x ''temperature'') = Inr t"
    using validate_temperature_returns by blast
  ultimately show ?thesis
    by (simp add: sanitize_patient_def)
qed

lemma validate_age_raises: "validate_age v = Inl e \<Longrightarrow> e = OverflowError"
  by (cases e) (auto simp add: validate_age_def split: if_splits sum.splits)

lemma validate_temperature_raises: "validate_temperature repr v = Inl e \<Longrightarrow> e = OverflowError"
  by (cases e) (auto simp add: validate_temperature_def Let_def split: if_splits sum.splits)

lemma sanitize_patient_raises: "sanitize_patient repr x = Inl e \<Longrightarrow> e = OverflowError"
  by (auto simp add: sanitize_patient_def Let_def split: sum.splits
      dest: validate_age_raises validate_temperature_raises)

text \<open>
  Values that the conversions reject with the two exceptions they catch become \<open>None\<close>.
\<close>

lemma malformed_degrades:
  "validate_age (PList xs) = Inr None"
  "validate_age (PDict kvs) = Inr None"
  "validate_age (PFloat NaN) = Inr None"
  "py_int s = None \<Longrightarrow> validate_age (PStr s) = Inr None"
  "validate_temperature repr (PList xs) = Inr None"
  "validate_temperature repr (PDict kvs) = Inr None"
  "py_float_str s = None \<Longrightarrow> validate_temperature repr (PStr s) = Inr None"
  "\<not> bp_pattern_match (py_strip (py_str repr v)) \<Longrightarrow> validate_blood_pressure repr v = None"
  by (simp_all add: validate_age_def validate_temperature_def validate_blood_pressure_def
      py_int_of_def py_float_of_def Let_def)

text \<open>
  The text of an integer consists of digits and a minus sign, so it is never read as a
  temperature placeholder, and an integer too large for a double reaches \<^verbatim>\<open>float\<close>.
\<close>

lemma nat_str_digits: "c \<in> set (nat_str n) \<Longrightarrow> is_digit c"
proof (induction n rule: nat_str.induct)
  case (1 n)
  show ?case
  proof (cases "n < 10")
    case True
    with 1(2) have "c = char_of (48 + n)"
      by (simp add: nat_str.simps [of n])
    with True show ?thesis
      by (simp add: is_digit_def)
  next
    case False
    with 1(2) have "c \<in> set (nat_str (n div 10)) \<or> c = char_of (48 + n mod 10)"
      by (auto simp add: nat_str.simps [of n])
    then show ?thesis
    proof
      assume "c \<in> set (nat_str (n div 10))"
      with False 1(1) show ?thesis by simp
    next
      assume "c = char_of (48 + n mod 10)"
      moreover have "n mod 10 < 10" by simp
      ultimately show ?thesis
        by (simp add: is_digit_def)
    qed
  qed
qed

lemma int_str_chars: "c \<in> set (int_str i) \<Longrightarrow> is_digit c \<or> c = CHR ''-''"
  by (auto simp add: int_str_def dest: nat_str_digits split: if_splits)

lemma to_upper_plain: "is_digit c \<or> c = CHR ''-'' \<Longrightarrow> to_upper c = c"
  by (auto simp add: to_upper_def is_digit_def Let_def)

lemma py_upper_strip_chars:
  assumes "c \<in> set (py_upper (py_strip s))"
  shows "\<exists>d \<in> set s. c = to_upper d"
proof -
  from assms obtain d where "d \<in> set (py_strip s)" and "c = to_upper d"
    by (auto simp add: py_upper_def)
  moreover then have "d \<in> set s"
    by (auto simp add: py_strip_def dest!: set_dropWhileD)
  ultimately show ?thesis by blast
qed

lemma int_str_not_placeholder:
  "py_upper (py_strip (int_str i))
     \<notin> set [''TEMP_ERROR'', ''INVALID'', ''UNKNOWN'', ''N/A'', ''NA'']"
proof
  let ?t = "py_upper (py_strip (int_str i))"
  assume a: "?t \<in> set [''TEMP_ERROR'', ''INVALID'', ''UNKNOWN'', ''N/A'', ''NA'']"
  have plain: "is_digit c \<or> c = CHR ''-''" if "c \<in> set ?t" for c
  proof -
    from that obtain d where d: "d \<in> set (int_str i)" "c = to_upper d"
      using py_upper_strip_chars by blast
    from d(1) have "is_digit d \<or> d = CHR ''-''"
      by (rule int_str_chars)
    with d(2) show ?thesis
      by (simp add: to_upper_plain)
  qed
  have n: "\<not> (is_digit (CHR ''N'') \<or> CHR ''N'' = CHR ''-'')"
    and t: "\<not> (is_digit (CHR ''T'') \<or> CHR ''T'' = CHR ''-'')"
    by (simp_all add: is_digit_def)
  from a consider "?t = ''TEMP_ERROR''" | "?t = ''INVALID''" | "?t = ''UNKNOWN''"
    | "?t = ''N/A''" | "?t = ''NA''"
    by (simp only: set_simps insert_iff empty_iff) blast
  then have "CHR ''N'' \<in> set ?t \<or> CHR ''T'' \<in> set ?t"
    by cases simp_all
  with plain n t show False
    by blast
qed

lemma validate_temperature_overflow:
  "beyond_double (of_int i) \<Longrightarrow> validate_temperature repr (PInt i) = Inl OverflowError"
  using int_str_not_placeholder [of i]
  by (simp add: validate_temperature_def py_str_def py_float_of_def)

text \<open>
  Claim C7 (the code departs from it). The claim has \<open>sanitize_patient\<close> return a patient
  for every raw record. The conversions of the age and of the temperature catch
  \<^verbatim>\<open>ValueError\<close> and \<^verbatim>\<open>TypeError\<close> only: an age that is an infinite float (the JSON number
  \<^verbatim>\<open>1e999\<close> decodes to one) makes \<^verbatim>\<open>int\<close> raise \<^verbatim>\<open>OverflowError\<close>, and so does \<^verbatim>\<open>float\<close> on an
  integer temperature beyond the range of a double; the exception leaves the function.
\<close>

theorem sanitize_patient_overflow:
  "sanitize_patient repr [''patient_id'' \<mapsto> PStr ''P1'', ''age'' \<mapsto> PFloat PosInf]
     = Inl OverflowError
   \<and> sanitize_patient repr
         [''patient_id'' \<mapsto> PStr ''P1'', ''temperature'' \<mapsto> PInt (2 ^ 1024)]
       = Inl OverflowError"
proof -
  have "sanitize_patient repr [''patient_id'' \<mapsto> PStr ''P1'', ''age'' \<mapsto> PFloat PosInf]
     = Inl OverflowError"
    by (simp add: sanitize_patient_def py_get_def validate_age_def py_int_of_def)
  moreover have "beyond_double (of_int (2 ^ 1024))"
    by (simp add: beyond_double_def)
  then have "validate_temperature repr (PInt (2 ^ 1024)) = Inl OverflowError"
    by (rule validate_temperature_overflow)
  then have "sanitize_patient repr
         [''patient_id'' \<mapsto> PStr ''P1'', ''temperature'' \<mapsto> PInt (2 ^ 1024)]
       = Inl OverflowError"
    by (simp add: sanitize_patient_def py_get_def validate_age_def)
  ultimately show ?thesis
    by blast
qed

subsection \<open>The identifier of a record without one\<close>

lemma sanitize_patient_missing_id:
  assumes "x ''patient_id'' = None \<or> x ''patient_id'' = Some PNone"
    and "sanitize_patient repr x = Inr p"
  shows "patient_id p = ''None''"
proof -
  from assms(1) have "py_get x ''patient_id'' = PNone"
    by (auto simp add: py_get_def)
  with assms(2) show ?thesis
    by (auto simp add: sanitize_patient_def Let_def py_str_def split: sum.splits)
qed

lemma sanitize_patient_id_text:
  "sanitize_patient repr (x(''patient_id'' := None))
     = sanitize_patient repr (x(''patient_id'' \<mapsto> PStr ''None''))"
proof -
  have a: "py_get (x(''patient_id'' := v)) ''age'' = py_get x ''age''" for v
    by (simp add: py_get_def)
  have b: "py_get (x(''patient_id'' := v)) ''blood_pressure'' = py_get x ''blood_pressure''"
    for v
    by (simp add: py_get_def)
  have t: "py_get (x(''patient_id'' := v)) ''temperature'' = py_get x ''temperature''" for v
    by (simp add: py_get_def)
  have i: "py_str repr (py_get (x(''patient_id'' := None)) ''patient_id'')
      = py_str repr (py_get (x(''patient_id'' \<mapsto> PStr ''None'')) ''patient_id'')"
    by (simp add: py_get_def py_str_def)
  show ?thesis
    unfolding sanitize_patient_def Let_def a b t i by (rule refl)
qed

text \<open>
  Claim C10 (the code departs from it). The claim has every record without a
  \<open>patient_id\<close>, or with a null one, yield a patient whose id is the text \<^verbatim>\<open>None\<close>. Whenever
  a patient is returned its id is that text (\<open>sanitize_patient_missing_id\<close>), but a
  record without an id whose age is an infinite float yields no patient: the
  \<^verbatim>\<open>OverflowError\<close> of claim C7 leaves the function.
\<close>

theorem sanitize_patient_missing_id_overflow:
  "sanitize_patient repr [''age'' \<mapsto> PFloat NegInf] = Inl OverflowError
   \<and> sanitize_patient repr [''patient_id'' \<mapsto> PNone, ''age'' \<mapsto> PFloat PosInf]
       = Inl OverflowError"
  by (simp add: sanitize_patient_def py_get_def validate_age_def py_int_of_def)

subsection \<open>Sanitizing twice\<close>

lemma dropWhile_rev_dropWhile:
  "dropWhile P (rev (dropWhile P (rev (dropWhile P s)))) = rev (dropWhile P (rev (dropWhile P s)))"
proof -
  let ?a = "dropWhile P s"
  let ?b = "dropWhile P (rev ?a)"
  show ?thesis
  proof (cases "?b = []")
    case True
    then show ?thesis by (simp only: rev.simps(1) dropWhile.simps(1))
  next
    case False
    then obtain x where x: "x \<in> set (rev ?a)" "\<not> P x"
      by (auto simp del: set_rev)
    then have "last ?b = last (rev ?a)"
      by (rule dropWhile_last)
    moreover from x have ne: "?a \<noteq> []"
      by (cases "?a") simp_all
    ultimately have "last ?b = hd ?a"
      by (simp add: last_rev)
    with ne have "\<not> P (last ?b)"
      by (simp add: hd_dropWhile)
    with False have "\<not> P (hd (rev ?b))"
      by (simp add: hd_rev)
    then show ?thesis
      by (simp add: dropWhile_eq_self_iff)
  qed
qed

lemma py_strip_idem: "py_strip (py_strip s) = py_strip s"
  unfolding py_strip_def
  by (simp add: dropWhile_rev_dropWhile)

lemma bp_pattern_match_nonempty: "bp_pattern_match s \<Longrightarrow> s \<noteq> []"
  by (auto simp add: bp_pattern_match_def)

lemma validate_blood_pressure_stable:
  assumes "validate_blood_pressure repr v = Some s"
  shows "validate_blood_pressure repr (PStr s) = Some s"
proof -
  from assms have s: "s = py_strip (py_str repr v)"
    and up: "py_upper s \<notin> set [''N/A'', ''NA'', ''INVALID'', ''UNKNOWN'', ''INVALID_BP_FORMAT'']"
    and m: "bp_pattern_match s"
    by (auto simp add: validate_blood_pressure_def Let_def split: if_splits)
  from s have st: "py_strip s = s"
    by (simp add: py_strip_idem)
  from m have "s \<noteq> []"
    by (rule bp_pattern_match_nonempty)
  with up m st show ?thesis
    by (simp add: validate_blood_pressure_def py_str_def)
qed

lemma validate_age_stable:
  "validate_age v = Inr a \<Longrightarrow> validate_age (opt_val PInt a) = Inr a"
  by (cases a) (simp_all add: validate_age_def opt_val_def py_int_of_def)

lemma validate_temperature_stable:
  assumes "\<forall>f. py_upper (py_strip (repr (PFloat f)))
            \<notin> set [''TEMP_ERROR'', ''INVALID'', ''UNKNOWN'', ''N/A'', ''NA'']"
  shows "validate_temperature repr (opt_val PFloat t) = Inr t"
proof (cases t)
  case None
  then show ?thesis
    by (simp add: validate_temperature_def opt_val_def)
next
  case (Some f)
  with assms [rule_format, of f] show ?thesis
    by (simp add: validate_temperature_def opt_val_def py_str_def py_float_of_def)
qed

lemma py_get_to_dict:
  "py_get (to_dict p) ''patient_id'' = PStr (patient_id p)"
  "py_get (to_dict p) ''age'' = opt_val PInt (age p)"
  "py_get (to_dict p) ''blood_pressure'' = opt_val PStr (blood_pressure p)"
  "py_get (to_dict p) ''temperature'' = opt_val PFloat (temperature p)"
  by (simp_all add: py_get_def to_dict_def)

lemma validate_blood_pressure_opt_stable:
  "validate_blood_pressure repr v = b \<Longrightarrow> validate_blood_pressure repr (opt_val PStr b) = b"
proof (cases b)
  case None
  then show ?thesis
    by (simp add: opt_val_def validate_blood_pressure_def)
next
  case (Some s)
  assume "validate_blood_pressure repr v = b"
  with Some show ?thesis
    by (simp add: opt_val_def validate_blood_pressure_stable)
qed

text \<open>
  Claim C8. Sanitizing the raw form of a sanitized record gives that record again: for
  every raw record \<open>x\<close>, \<open>sanitize_patient\<close> applied to \<open>to_dict\<close> of the result for \<open>x\<close> equals
  the result for \<open>x\<close> in every field (and where the first call raises, so does the
  composition). Equality is that of the field values: a NaN temperature comes back as
  NaN. The text that \<^verbatim>\<open>str\<close> gives for a float is a parameter of the model; the one fact
  used about it is that it never reads as one of the five temperature placeholders.
\<close>

theorem sanitize_patient_idempotent:
  assumes "\<forall>f. py_upper (py_strip (repr (PFloat f)))
            \<notin> set [''TEMP_ERROR'', ''INVALID'', ''UNKNOWN'', ''N/A'', ''NA'']"
  shows "(case sanitize_patient repr x of
            Inl e \<Rightarrow> Inl e
          | Inr p \<Rightarrow> sanitize_patient repr (to_dict p)) = sanitize_patient repr x"
proof (cases "sanitize_patient repr x")
  case (Inl e)
  then show ?thesis by simp
next
  case (Inr p)
  then obtain a t where a: "validate_age (py_get x ''age'') = Inr a"
    and t: "validate_temperature repr (py_get x ''temperature'') = Inr t"
    and p: "p = \<lparr>patient_id = py_str repr (py_get x ''patient_id''), age = a,
                 blood_pressure = validate_blood_pressure repr (py_get x ''blood_pressure''),
                 temperature = t\<rparr>"
    by (auto simp add: sanitize_patient_def Let_def split: sum.splits)
  have 1: "validate_age (opt_val PInt (age p)) = Inr (age p)"
    using a p by (simp add: validate_age_stable)
  have 2: "validate_blood_pressure repr (opt_val PStr (blood_pressure p)) = blood_pressure p"
    using p by (simp add: validate_blood_pressure_opt_stable)
  have 3: "validate_temperature repr (opt_val PFloat (temperature p)) = Inr (temperature p)"
    using assms by (rule validate_temperature_stable)
  have "sanitize_patient repr (to_dict p) = Inr p"
    by (simp add: sanitize_patient_def py_get_to_dict 1 2 3 py_str_def)
  with Inr show ?thesis by simp
qed

theorem sanitize_patient_idempotent_witness:
  "(\<forall>f. py_upper (py_strip ((\<lambda>v. ''98.6'') (PFloat f)))
          \<notin> set [''TEMP_ERROR'', ''INVALID'', ''UNKNOWN'', ''N/A'', ''NA''])
   \<and> sanitize_patient (\<lambda>v. ''98.6'')
         [''patient_id'' \<mapsto> PInt 7, ''age'' \<mapsto> PStr ''45'',
          ''blood_pressure'' \<mapsto> PStr '' 120/80 '', ''temperature'' \<mapsto> PStr ''98.6'']
       = Inr \<lparr>patient_id = ''7'', age = Some 45, blood_pressure = Some ''120/80'',
              temperature = Some (Finite (double 98.6))\<rparr>
   \<and> sanitize_patient (\<lambda>v. ''98.6'')
         (to_dict \<lparr>patient_id = ''7'', age = Some 45, blood_pressure = Some ''120/80'',
                   temperature = Some (Finite (double 98.6))\<rparr>)
       = Inr \<lparr>patient_id = ''7'', age = Some 45, blood_pressure = Some ''120/80'',
              temperature = Some (Finite (double 98.6))\<rparr>"
proof -
  have h: "\<forall>f. py_upper (py_strip ((\<lambda>v. ''98.6'') (PFloat f)))
          \<notin> set [''TEMP_ERROR'', ''INVALID'', ''UNKNOWN'', ''N/A'', ''NA'']"
    by (simp add: py_upper_def py_strip_def py_isspace_def to_upper_def)
  have a: "validate_age (PStr ''45'') = Inr (Some 45)"
    by (simp add: validate_age_def py_int_of_def string_eval)
  have b: "validate_blood_pressure (\<lambda>v. ''98.6'') (PStr '' 120/80 '') = Some ''120/80''"
    by (simp add: validate_blood_pressure_def py_str_def py_strip_def py_isspace_def
        py_upper_def to_upper_def bp_pattern_match_def is_digit_def)
  have t: "validate_temperature (\<lambda>v. ''98.6'') (PStr ''98.6'')
      = Inr (Some (Finite (double 98.6)))"
    by (simp add: validate_temperature_def py_str_def py_strip_def py_isspace_def
        c_strip_def c_isspace_def
        py_upper_def to_upper_def py_float_of_def py_float_str_def py_lower_def to_lower_def
        decimal_value_def mantissa_value_def opt_digit_run_def is_digit_def digits_value_def
        float_of_rat_def beyond_double_def)
  have "nat_str 7 = ''7''"
    by code_simp
  then have i: "py_str (\<lambda>v. ''98.6'') (PInt 7) = ''7''"
    by (simp add: py_str_def int_str_def)
  have e: "sanitize_patient (\<lambda>v. ''98.6'')
         [''patient_id'' \<mapsto> PInt 7, ''age'' \<mapsto> PStr ''45'',
          ''blood_pressure'' \<mapsto> PStr '' 120/80 '', ''temperature'' \<mapsto> PStr ''98.6'']
       = Inr \<lparr>patient_id = ''7'', age = Some 45, blood_pressure = Some ''120/80'',
              temperature = Some (Finite (double 98.6))\<rparr>"
    by (simp add: sanitize_patient_def py_get_def a b t i)
  from sanitize_patient_idempotent [OF h,
      of "[''patient_id'' \<mapsto> PInt 7, ''age'' \<mapsto> PStr ''45'',
           ''blood_pressure'' \<mapsto> PStr '' 120/80 '', ''temperature'' \<mapsto> PStr ''98.6'']"]
  have "sanitize_patient (\<lambda>v. ''98.6'')
         (to_dict \<lparr>patient_id = ''7'', age = Some 45, blood_pressure = Some ''120/80'',
                   temperature = Some (Finite (double 98.6))\<rparr>)
       = Inr \<lparr>patient_id = ''7'', age = Some 45, blood_pressure = Some ''120/80'',
              temperature = Some (Finite (double 98.6))\<rparr>"
    by (simp only: e sum.case)
  with h e show ?thesis
    by blast
qed

section \<open>Properties of the fetcher\<close>

text \<open>
  A response that is neither 200 nor 429 and below 500 ends the fetch at once; so does a
  server error or a transport failure on the tenth attempt. None of the three reads the
  rest of the script: no further request is made, and the accumulated list is returned
  as it stands.
\<close>

lemma fetch_loop_client_error:
  assumes "status_code \<noteq> 200" and "status_code \<noteq> 429" and "status_code < 500"
  shows "fetch_loop repr attempt st (Response status_code b # rs)
         = Some (Inr (st\<lparr>trace := trace st @ [Get (page st)], page := page st + 1\<rparr>))"
  using assms by (simp add: attempt_body_def)

lemma fetch_loop_last_server_error:
  assumes "500 \<le> status_code"
  shows "fetch_loop repr 9 st (Response status_code b # rs)
         = Some (Inr (st\<lparr>trace := trace st @ [Get (page st)], page := page st + 1\<rparr>))"
  using assms by (simp add: attempt_body_def max_retries_def)

lemma fetch_loop_last_transport_failure:
  "fetch_loop repr 9 st (RequestException # rs)
     = Some (Inr (st\<lparr>trace := trace st @ [Get (page st)], page := page st + 1\<rparr>))"
  by (simp add: attempt_body_def max_retries_def)

lemma fetch_loop_last_rate_limit:
  "fetch_loop repr 9 st (Response 429 b # rs)
     = fetch_loop repr 0
         (st\<lparr>trace := trace st @ [Get (page st), Sleep 1024, Sleep 1], page := page st + 1\<rparr>) rs"
  by (simp add: attempt_body_def max_retries_def next_page_def sleep_def)

lemma getPatients_server_error_exhausted:
  "getPatients repr
     (replicate 10 (Response 500 \<lparr>body_data = None, body_pagination = None\<rparr>) @ rs)
   = Some (Inr \<lparr>page = 2, all_patients = [],
                trace =
                  [Get 1, Sleep 1, Get 1, Sleep 2, Get 1, Sleep 4, Get 1, Sleep 8,
                   Get 1, Sleep 16, Get 1, Sleep 32, Get 1, Sleep 64, Get 1, Sleep 128,
                   Get 1, Sleep 256, Get 1]\<rparr>)"
  by (simp add: getPatients_def eval_nat_numeral attempt_body_def max_retries_def
      backoff_factor_def sleep_def)

text \<open>
  Claim C6 (the code departs from it). The claim has the fetcher stop when the retries
  of a page are used up, whatever failed, the rate limit included. The branch for status
  429 sleeps and neither tests the attempt number nor clears \<^verbatim>\<open>has_next\<close>, so after a
  tenth 429 on a page the \<^verbatim>\<open>for\<close> loop ends without a \<^verbatim>\<open>break\<close> and the \<^verbatim>\<open>while\<close> loop
  goes on: the fetcher requests the next page and returns its records.
\<close>

theorem getPatients_rate_limit_exhausted:
  "getPatients repr
     (replicate 10 (Response 429 \<lparr>body_data = None, body_pagination = None\<rparr>)
      @ [Response 200 \<lparr>body_data = Some [[''patient_id'' \<mapsto> PStr ''P2'']],
                       body_pagination = None\<rparr>])
   = Some (Inr \<lparr>page = 3,
                all_patients =
                  [to_dict \<lparr>patient_id = ''P2'', age = None, blood_pressure = None,
                            temperature = None\<rparr>],
                trace =
                  [Get 1, Sleep 2, Get 1, Sleep 4, Get 1, Sleep 8, Get 1, Sleep 16,
                   Get 1, Sleep 32, Get 1, Sleep 64, Get 1, Sleep 128, Get 1, Sleep 256,
                   Get 1, Sleep 512, Get 1, Sleep 1024, Sleep 1, Get 2]\<rparr>)"
  by (simp add: getPatients_def eval_nat_numeral attempt_body_def max_retries_def
      next_page_def sleep_def sanitize_patient_def py_get_def validate_age_def
      validate_temperature_def validate_blood_pressure_def py_str_def)


end
